theory Spec2Isabelle
  imports Complex_Main
begin

section \<open>JavaScript numbers\<close>

text \<open>
  A JavaScript Number is modelled as \<open>NaN\<close>, one of the two infinities, or a finite
  value. Finite values are exact reals: rounding of IEEE doubles and the sign of zero are
  not modelled. The operators below follow the ECMAScript Number operations on this type.
\<close>

datatype jsnum = NaN | PInf | NInf | Num real

fun js_neg :: "jsnum \<Rightarrow> jsnum" where
  "js_neg NaN = NaN"
| "js_neg PInf = NInf"
| "js_neg NInf = PInf"
| "js_neg (Num a) = Num (- a)"

fun js_add :: "jsnum \<Rightarrow> jsnum \<Rightarrow> jsnum" where
  "js_add (Num a) (Num b) = Num (a + b)"
| "js_add NaN _ = NaN"
| "js_add _ NaN = NaN"
| "js_add PInf NInf = NaN"
| "js_add NInf PInf = NaN"
| "js_add PInf _ = PInf"
| "js_add _ PInf = PInf"
| "js_add NInf _ = NInf"
| "js_add _ NInf = NInf"

definition js_sub :: "jsnum \<Rightarrow> jsnum \<Rightarrow> jsnum" where
  "js_sub a b = js_add a (js_neg b)"

definition inf_of_sign :: "real \<Rightarrow> jsnum" where
  "inf_of_sign s = (if s = 0 then NaN else if 0 < s then PInf else NInf)"

fun js_mul :: "jsnum \<Rightarrow> jsnum \<Rightarrow> jsnum" where
  "js_mul (Num a) (Num b) = Num (a * b)"
| "js_mul NaN _ = NaN"
| "js_mul _ NaN = NaN"
| "js_mul (Num a) PInf = inf_of_sign a"
| "js_mul (Num a) NInf = inf_of_sign (- a)"
| "js_mul PInf (Num b) = inf_of_sign b"
| "js_mul NInf (Num b) = inf_of_sign (- b)"
| "js_mul PInf PInf = PInf"
| "js_mul NInf NInf = PInf"
| "js_mul PInf NInf = NInf"
| "js_mul NInf PInf = NInf"

text \<open>Division never raises in JavaScript: a zero divisor gives an infinity or \<open>NaN\<close>.\<close>

fun js_div :: "jsnum \<Rightarrow> jsnum \<Rightarrow> jsnum" where
  "js_div (Num a) (Num b) = (if b = 0 then inf_of_sign a else Num (a / b))"
| "js_div NaN _ = NaN"
| "js_div _ NaN = NaN"
| "js_div (Num a) _ = Num 0"
| "js_div PInf (Num b) = (if 0 \<le> b then PInf else NInf)"
| "js_div NInf (Num b) = (if 0 \<le> b then NInf else PInf)"
| "js_div _ _ = NaN"

fun js_lt :: "jsnum \<Rightarrow> jsnum \<Rightarrow> bool" where
  "js_lt (Num a) (Num b) = (a < b)"
| "js_lt NaN _ = False"
| "js_lt _ NaN = False"
| "js_lt NInf NInf = False"
| "js_lt NInf _ = True"
| "js_lt _ NInf = False"
| "js_lt PInf _ = False"
| "js_lt _ PInf = True"

definition js_gt :: "jsnum \<Rightarrow> jsnum \<Rightarrow> bool" where
  "js_gt a b = js_lt b a"

definition js_le :: "jsnum \<Rightarrow> jsnum \<Rightarrow> bool" where
  "js_le a b = (a \<noteq> NaN \<and> b \<noteq> NaN \<and> \<not> js_lt b a)"

definition js_ge :: "jsnum \<Rightarrow> jsnum \<Rightarrow> bool" where
  "js_ge a b = js_le b a"

text \<open>\<open>x || 0\<close> on a Number: the falsy Numbers are \<open>NaN\<close> and zero.\<close>

definition or_zero :: "jsnum \<Rightarrow> jsnum" where
  "or_zero x = (if x = NaN \<or> x = Num 0 then Num 0 else x)"

section \<open>Bookings and the host environment\<close>

text \<open>
  One element of \<open>allBookings\<close>. \<open>arrival\<close>, \<open>departure\<close> and \<open>status\<close> are strings;
  \<open>total_amount\<close>, \<open>source\<close> and \<open>creation_date\<close> may be absent (\<open>None\<close> is
  \<open>undefined\<close>). The amount is a JSON number, hence finite.
\<close>

record booking =
  arrival :: string
  departure :: string
  total_amount :: "real option"
  source :: "string option"
  status :: string
  creation_date :: "string option"

text \<open>
  The built-in \<open>Date\<close> is a parameter of the model. \<open>Date_parse s\<close> is the time value
  of \<open>new Date(s)\<close>: \<open>None\<close> for an Invalid Date, otherwise integral milliseconds
  since the epoch. \<open>localMonth t\<close> is what \<open>getMonth()\<close> returns for the valid time
  value \<open>t\<close> in the host's time zone.
\<close>

record js_env =
  Date_parse :: "string \<Rightarrow> int option"
  localMonth :: "int \<Rightarrow> nat"

text \<open>The Number a \<open>Date\<close> object converts to under \<open>-\<close>, \<open>>=\<close> and \<open><=\<close>.\<close>

definition new_Date :: "js_env \<Rightarrow> string \<Rightarrow> jsnum" where
  "new_Date env s = (case Date_parse env s of None \<Rightarrow> NaN | Some t \<Rightarrow> Num (real_of_int t))"

text \<open>\<open>getMonth()\<close>: \<open>None\<close> stands for \<open>NaN\<close>, the result on an Invalid Date.\<close>

definition getMonth :: "js_env \<Rightarrow> string \<Rightarrow> nat option" where
  "getMonth env s = map_option (localMonth env) (Date_parse env s)"

section \<open>The date-range filter\<close>

text \<open>
  The callback of \<open>allBookings.filter\<close>. \<open>startDate\<close> and \<open>endDate\<close> are the
  strings of the two date inputs; \<open>!startDate\<close> holds exactly for the empty string.
\<close>

definition inDateRange :: "js_env \<Rightarrow> string \<Rightarrow> string \<Rightarrow> booking \<Rightarrow> bool" where
  "inDateRange env startDate endDate b =
     (if startDate = [] \<and> endDate = [] then True
      else if startDate \<noteq> [] \<and> endDate = [] then
        js_ge (new_Date env (arrival b)) (new_Date env startDate)
      else if startDate = [] \<and> endDate \<noteq> [] then
        js_le (new_Date env (arrival b)) (new_Date env endDate)
      else js_ge (new_Date env (arrival b)) (new_Date env startDate)
         \<and> js_le (new_Date env (arrival b)) (new_Date env endDate))"

definition filteredBookings :: "js_env \<Rightarrow> string \<Rightarrow> string \<Rightarrow> booking list \<Rightarrow> booking list" where
  "filteredBookings env startDate endDate allBookings =
     filter (inDateRange env startDate endDate) allBookings"

text \<open>
  The contract of the filter in the specification's words: a bound is an optional
  calendar date, the comparison is on date values, and an unparseable date compares
  false either way.
\<close>

definition on_or_after :: "int option \<Rightarrow> int option \<Rightarrow> bool" where
  "on_or_after a s = (case (a, s) of (Some x, Some y) \<Rightarrow> y \<le> x | _ \<Rightarrow> False)"

definition on_or_before :: "int option \<Rightarrow> int option \<Rightarrow> bool" where
  "on_or_before a e = (case (a, e) of (Some x, Some y) \<Rightarrow> x \<le> y | _ \<Rightarrow> False)"


section \<open>Key performance indicators\<close>

definition confirmedBookings :: "booking list \<Rightarrow> booking list" where
  "confirmedBookings fb = filter (\<lambda>b. status b = ''Booked'') fb"

definition cancelledBookings :: "booking list \<Rightarrow> booking list" where
  "cancelledBookings fb = filter (\<lambda>b. status b = ''Cancelled'') fb"

text \<open>\<open>(b.total_amount || 0)\<close>: \<open>undefined\<close> and \<open>0\<close> are falsy.\<close>

definition amount :: "booking \<Rightarrow> jsnum" where
  "amount b = (case total_amount b of None \<Rightarrow> Num 0 | Some a \<Rightarrow> or_zero (Num a))"

text \<open>\<open>Array.prototype.reduce\<close> with an initial value is a left fold.\<close>

definition totalRevenue :: "booking list \<Rightarrow> jsnum" where
  "totalRevenue cb = foldl (\<lambda>acc b. js_add acc (amount b)) (Num 0) cb"

definition totalBookings :: "booking list \<Rightarrow> nat" where
  "totalBookings cb = length cb"

definition msPerDay :: jsnum where
  "msPerDay = Num (1000 * 3600 * 24)"

text \<open>\<open>((new Date(b.departure) - new Date(b.arrival)) / (1000 * 3600 * 24) || 0)\<close>\<close>

definition nights :: "js_env \<Rightarrow> booking \<Rightarrow> jsnum" where
  "nights env b =
     or_zero (js_div (js_sub (new_Date env (departure b)) (new_Date env (arrival b))) msPerDay)"

definition totalNights :: "js_env \<Rightarrow> booking list \<Rightarrow> jsnum" where
  "totalNights env cb = foldl (\<lambda>acc b. js_add acc (nights env b)) (Num 0) cb"

definition avgBookingValue :: "booking list \<Rightarrow> jsnum" where
  "avgBookingValue cb =
     (if totalBookings cb > 0 then js_div (totalRevenue cb) (Num (real (totalBookings cb)))
      else Num 0)"

definition avgNightlyRate :: "js_env \<Rightarrow> booking list \<Rightarrow> jsnum" where
  "avgNightlyRate env cb =
     (if js_gt (totalNights env cb) (Num 0) then js_div (totalRevenue cb) (totalNights env cb)
      else Num 0)"

definition avgLengthOfStay :: "js_env \<Rightarrow> booking list \<Rightarrow> jsnum" where
  "avgLengthOfStay env cb =
     (if totalBookings cb > 0 then js_div (totalNights env cb) (Num (real (totalBookings cb)))
      else Num 0)"

text \<open>
  The callback of the lead-time \<open>reduce\<close>. \<open>!b.creation_date\<close> holds for an absent
  field and for the empty string.
\<close>

definition leadDays :: "js_env \<Rightarrow> booking \<Rightarrow> string \<Rightarrow> jsnum" where
  "leadDays env b c = js_div (js_sub (new_Date env (arrival b)) (new_Date env c)) msPerDay"

definition leadTimeStep :: "js_env \<Rightarrow> jsnum \<Rightarrow> booking \<Rightarrow> jsnum" where
  "leadTimeStep env acc b =
     (case creation_date b of
        None \<Rightarrow> acc
      | Some c \<Rightarrow>
          if c = [] then acc
          else js_add acc (if js_gt (leadDays env b c) (Num 0) then leadDays env b c else Num 0))"

definition totalLeadTime :: "js_env \<Rightarrow> booking list \<Rightarrow> jsnum" where
  "totalLeadTime env cb = foldl (leadTimeStep env) (Num 0) cb"

definition avgLeadTime :: "js_env \<Rightarrow> booking list \<Rightarrow> jsnum" where
  "avgLeadTime env cb =
     (if totalBookings cb > 0 then js_div (totalLeadTime env cb) (Num (real (totalBookings cb)))
      else Num 0)"

text \<open>The cancellation rate is taken over the whole filtered list.\<close>

definition cancellationRate :: "booking list \<Rightarrow> jsnum" where
  "cancellationRate fb =
     (if length fb > 0 then
        js_mul (js_div (Num (real (length (cancelledBookings fb)))) (Num (real (length fb))))
               (Num 100)
      else Num 0)"


section \<open>Plain objects used as dictionaries\<close>

text \<open>
  \<open>monthlyData\<close> and \<open>channelData\<close> are object literals \<open>{}\<close> filled by
  assignment. An object is modelled by its own properties in creation order. Assigning
  to an existing own property keeps its place; a new property is appended.
\<close>

type_synonym ('k, 'v) js_object = "('k \<times> 'v) list"

primrec set_prop :: "'k \<Rightarrow> 'v \<Rightarrow> ('k, 'v) js_object \<Rightarrow> ('k, 'v) js_object" where
  "set_prop k v [] = [(k, v)]"
| "set_prop k v (p # ps) = (if fst p = k then (k, v) # ps else p # set_prop k v ps)"

text \<open>
  \<open>Object.values\<close> lists the own properties whose key is an array index first, in
  ascending numeric order, and then the other string keys in creation order.
  \<open>idx k\<close> is \<open>Some n\<close> when the key \<open>k\<close> is the array index \<open>n\<close>.
\<close>

definition index_of_key :: "('k \<Rightarrow> nat option) \<Rightarrow> 'k \<times> 'v \<Rightarrow> nat" where
  "index_of_key idx p = (case idx (fst p) of Some n \<Rightarrow> n | None \<Rightarrow> 0)"

definition Object_values :: "('k \<Rightarrow> nat option) \<Rightarrow> ('k, 'v) js_object \<Rightarrow> 'v list" where
  "Object_values idx obj =
     map snd (sort_key (index_of_key idx) (filter (\<lambda>p. idx (fst p) \<noteq> None) obj))
     @ map snd (filter (\<lambda>p. idx (fst p) = None) obj)"

text \<open>
  A string key is an array index when it is the canonical decimal form of an integer
  below \<open>2^32 - 1\<close>.
\<close>

definition is_digit :: "char \<Rightarrow> bool" where
  "is_digit c = (48 \<le> (of_char c :: nat) \<and> (of_char c :: nat) \<le> 57)"

definition dec_val :: "string \<Rightarrow> nat" where
  "dec_val s = foldl (\<lambda>a c. 10 * a + (of_char c - 48)) 0 s"

definition array_index :: "string \<Rightarrow> nat option" where
  "array_index s =
     (if s \<noteq> [] \<and> list_all is_digit s \<and> (hd s \<noteq> CHR ''0'' \<or> s = ''0'')
         \<and> dec_val s < 2 ^ 32 - 1
      then Some (dec_val s) else None)"

text \<open>
  The key of \<open>monthlyData[month]\<close> is the string of the number \<open>month\<close>: an array
  index for a month number, and \<open>"NaN"\<close> otherwise.
\<close>

definition month_key_index :: "nat option \<Rightarrow> nat option" where
  "month_key_index m = (case m of Some n \<Rightarrow> if n < 2 ^ 32 - 1 then Some n else None | None \<Rightarrow> None)"

text \<open>
  An object literal inherits from \<open>Object.prototype\<close>. Reading one of these names on
  an object without such an own property yields the inherited built-in, which is truthy.
\<close>

definition Object_prototype_names :: "string list" where
  "Object_prototype_names =
     [''constructor'', ''__defineGetter__'', ''__defineSetter__'', ''hasOwnProperty'',
      ''__lookupGetter__'', ''__lookupSetter__'', ''isPrototypeOf'', ''propertyIsEnumerable'',
      ''toString'', ''valueOf'', ''__proto__'', ''toLocaleString'']"

text \<open>
  \<open>Array.prototype.sort\<close> with a comparator, as a stable insertion sort. A comparator
  result of \<open>NaN\<close> counts as \<open>+0\<close>.
\<close>

definition sortCompare :: "('a \<Rightarrow> 'a \<Rightarrow> jsnum) \<Rightarrow> 'a \<Rightarrow> 'a \<Rightarrow> jsnum" where
  "sortCompare cmp x y = (case cmp x y of NaN \<Rightarrow> Num 0 | v \<Rightarrow> v)"

fun js_insert :: "('a \<Rightarrow> 'a \<Rightarrow> jsnum) \<Rightarrow> 'a \<Rightarrow> 'a list \<Rightarrow> 'a list" where
  "js_insert cmp x [] = [x]"
| "js_insert cmp x (y # ys) =
     (if js_gt (sortCompare cmp x y) (Num 0) then y # js_insert cmp x ys else x # y # ys)"

fun js_sort :: "('a \<Rightarrow> 'a \<Rightarrow> jsnum) \<Rightarrow> 'a list \<Rightarrow> 'a list" where
  "js_sort cmp [] = []"
| "js_sort cmp (x # xs) = js_insert cmp x (js_sort cmp xs)"

section \<open>Chart series\<close>

text \<open>
  The entries of the two series. In the source both objects call their label
  \<open>name\<close>; \<open>monthName\<close> is \<open>None\<close> when \<open>monthNames[month]\<close> is \<open>undefined\<close>.
\<close>

record month_entry =
  monthName :: "string option"
  monthIndex :: "nat option"
  bookings :: nat

record channel_entry =
  channelName :: string
  revenue :: jsnum

definition monthNames :: "string list" where
  "monthNames = [''Jan'', ''Feb'', ''Mar'', ''Apr'', ''May'', ''Jun'',
                 ''Jul'', ''Aug'', ''Sep'', ''Oct'', ''Nov'', ''Dec'']"

definition monthNames_at :: "nat option \<Rightarrow> string option" where
  "monthNames_at m =
     (case m of Some n \<Rightarrow> if n < length monthNames then Some (monthNames ! n) else None
              | None \<Rightarrow> None)"

text \<open>
  The month part of the loop body. The keys \<open>0\<close> to \<open>11\<close> and \<open>NaN\<close> are not
  names of \<open>Object.prototype\<close>, so \<open>monthlyData[month]\<close> reads own properties only.
  The second lookup finds the entry that exists by then; its \<open>None\<close> branch is never
  taken.
\<close>

definition monthStep ::
  "js_env \<Rightarrow> (nat option, month_entry) js_object \<Rightarrow> booking \<Rightarrow> (nat option, month_entry) js_object" where
  "monthStep env monthlyData b =
     (let month = getMonth env (arrival b);
          monthName = monthNames_at month;
          monthlyData1 =
            (case map_of monthlyData month of
               None \<Rightarrow> set_prop month
                         \<lparr>monthName = monthName, monthIndex = month, bookings = 0\<rparr> monthlyData
             | Some _ \<Rightarrow> monthlyData)
      in case map_of monthlyData1 month of
           None \<Rightarrow> monthlyData1
         | Some e \<Rightarrow> set_prop month (e\<lparr>bookings := bookings e + 1\<rparr>) monthlyData1)"

text \<open>\<open>booking.source || 'Unknown'\<close>: \<open>undefined\<close> and the empty string are falsy.\<close>

definition channelOf :: "booking \<Rightarrow> string" where
  "channelOf b = (case source b of None \<Rightarrow> ''Unknown'' | Some s \<Rightarrow> if s = [] then ''Unknown'' else s)"

text \<open>
  When \<open>source\<close> names a property of \<open>Object.prototype\<close> and \<open>channelData\<close> has no own
  property of that name, \<open>channelData[source]\<close> is the inherited built-in: the test
  \<open>!channelData[source]\<close> fails, and \<open>+=\<close> writes \<open>revenue\<close> onto that built-in,
  leaving \<open>channelData\<close> as it was. Otherwise the entry exists at the second lookup,
  whose \<open>None\<close> branch is never taken.
\<close>

definition channelStep ::
  "(string, channel_entry) js_object \<Rightarrow> booking \<Rightarrow> (string, channel_entry) js_object" where
  "channelStep channelData b =
     (let source = channelOf b in
      if map_of channelData source = None \<and> source \<in> set Object_prototype_names
      then channelData
      else
        let channelData1 =
              (case map_of channelData source of
                 None \<Rightarrow> set_prop source \<lparr>channelName = source, revenue = Num 0\<rparr> channelData
               | Some _ \<Rightarrow> channelData)
        in case map_of channelData1 source of
             None \<Rightarrow> channelData1
           | Some e \<Rightarrow> set_prop source (e\<lparr>revenue := js_add (revenue e) (amount b)\<rparr>) channelData1)"

text \<open>The body of \<open>confirmedBookings.forEach\<close>, on the pair of the two objects.\<close>

definition chartStep ::
  "js_env \<Rightarrow> (nat option, month_entry) js_object \<times> (string, channel_entry) js_object \<Rightarrow> booking
   \<Rightarrow> (nat option, month_entry) js_object \<times> (string, channel_entry) js_object" where
  "chartStep env st b = (monthStep env (fst st) b, channelStep (snd st) b)"

definition chartData ::
  "js_env \<Rightarrow> booking list \<Rightarrow> (nat option, month_entry) js_object \<times> (string, channel_entry) js_object" where
  "chartData env cb = foldl (chartStep env) ([], []) cb"

text \<open>\<open>(a, b) => a.monthIndex - b.monthIndex\<close>\<close>

definition byMonthIndex :: "month_entry \<Rightarrow> month_entry \<Rightarrow> jsnum" where
  "byMonthIndex a b =
     (case (monthIndex a, monthIndex b) of
        (Some m, Some n) \<Rightarrow> js_sub (Num (real m)) (Num (real n))
      | _ \<Rightarrow> NaN)"

definition bookingsByMonth :: "js_env \<Rightarrow> booking list \<Rightarrow> month_entry list" where
  "bookingsByMonth env cb =
     js_sort byMonthIndex (Object_values month_key_index (fst (chartData env cb)))"

definition revenueByChannel :: "js_env \<Rightarrow> booking list \<Rightarrow> channel_entry list" where
  "revenueByChannel env cb = Object_values array_index (snd (chartData env cb))"


section \<open>The memoised computation\<close>

text \<open>
  The object returned by the \<open>useMemo\<close> callback. The fields carry the names of the
  source's properties with the prefix \<open>r_\<close>.
\<close>

record processed =
  r_totalRevenue :: jsnum
  r_totalBookings :: nat
  r_avgBookingValue :: jsnum
  r_avgNightlyRate :: jsnum
  r_bookingsByMonth :: "month_entry list"
  r_revenueByChannel :: "channel_entry list"
  r_totalNights :: jsnum
  r_avgLengthOfStay :: jsnum
  r_avgLeadTime :: jsnum
  r_cancellationRate :: jsnum
  r_filteredBookings :: "booking list"

text \<open>Everything after the filter: the aggregation of a filtered list.\<close>

definition aggregate :: "js_env \<Rightarrow> booking list \<Rightarrow> processed" where
  "aggregate env fb =
     (let cb = confirmedBookings fb in
      \<lparr>r_totalRevenue = totalRevenue cb,
       r_totalBookings = totalBookings cb,
       r_avgBookingValue = avgBookingValue cb,
       r_avgNightlyRate = avgNightlyRate env cb,
       r_bookingsByMonth = bookingsByMonth env cb,
       r_revenueByChannel = revenueByChannel env cb,
       r_totalNights = totalNights env cb,
       r_avgLengthOfStay = avgLengthOfStay env cb,
       r_avgLeadTime = avgLeadTime env cb,
       r_cancellationRate = cancellationRate fb,
       r_filteredBookings = fb\<rparr>)"

text \<open>
  \<open>allBookings\<close> is \<open>None\<close> when it is \<open>null\<close> or \<open>undefined\<close>; the callback then
  returns the empty object, here \<open>None\<close>. An empty array is truthy.
\<close>

definition processedData ::
  "js_env \<Rightarrow> booking list option \<Rightarrow> string \<Rightarrow> string \<Rightarrow> processed option" where
  "processedData env allBookings startDate endDate =
     (case allBookings of
        None \<Rightarrow> None
      | Some bs \<Rightarrow> Some (aggregate env (filteredBookings env startDate endDate bs)))"


section \<open>The specification's quantities\<close>

text \<open>
  The sums of the specification, over exact reals: a missing amount counts as 0; the
  nights of a stay are the unclamped difference of the two dates in days, and 0 when
  either date is unparseable.
\<close>

definition amount_or_zero :: "booking \<Rightarrow> real" where
  "amount_or_zero b = (case total_amount b of None \<Rightarrow> 0 | Some a \<Rightarrow> a)"

definition night_diff :: "js_env \<Rightarrow> booking \<Rightarrow> real" where
  "night_diff env b =
     (case (Date_parse env (departure b), Date_parse env (arrival b)) of
        (Some d, Some a) \<Rightarrow> real_of_int (d - a) / 86400000
      | _ \<Rightarrow> 0)"

text \<open>
  Lead time: a creation date is present when the field holds a non-empty string. The
  contribution of a record is its lead time in days floored at 0; a lead time that is
  not a number, from an unparseable date, counts as 0.
\<close>

definition has_creation_date :: "booking \<Rightarrow> bool" where
  "has_creation_date b = (case creation_date b of None \<Rightarrow> False | Some c \<Rightarrow> c \<noteq> [])"

definition lead_days :: "js_env \<Rightarrow> booking \<Rightarrow> real option" where
  "lead_days env b =
     (case creation_date b of
        None \<Rightarrow> None
      | Some c \<Rightarrow>
          (case (Date_parse env (arrival b), Date_parse env c) of
             (Some a, Some t) \<Rightarrow> Some (real_of_int (a - t) / 86400000)
           | _ \<Rightarrow> None))"

definition lead_contribution :: "js_env \<Rightarrow> booking \<Rightarrow> real" where
  "lead_contribution env b = (case lead_days env b of None \<Rightarrow> 0 | Some d \<Rightarrow> max d 0)"

text \<open>
  The lead-time sum runs over the records with status \<open>Booked\<close> that have a creation
  date; the averaging denominator counts every record with status \<open>Booked\<close>.
\<close>

definition lead_time_sum :: "js_env \<Rightarrow> booking list \<Rightarrow> real" where
  "lead_time_sum env fb =
     sum_list (map (lead_contribution env)
                (filter (\<lambda>b. status b = ''Booked'' \<and> has_creation_date b) fb))"

definition booked_count :: "booking list \<Rightarrow> nat" where
  "booked_count fb = length (filter (\<lambda>b. status b = ''Booked'') fb)"


text \<open>
  The chart series in the specification's words. The label of a record is its source,
  and \<open>Unknown\<close> when the source is absent or empty. The month of a record is the
  month of its arrival on the host, and undefined (\<open>None\<close>) when the arrival is
  unparseable. \<open>first_seen\<close> keeps the first occurrence of every element, in order. A
  month's row carries the number of the given records arriving in that month; a
  channel's row carries the sum of the amounts of the given records with that label.
\<close>

definition source_label :: "booking \<Rightarrow> string" where
  "source_label b =
     (case source b of None \<Rightarrow> ''Unknown'' | Some s \<Rightarrow> if s = [] then ''Unknown'' else s)"

definition arrival_month :: "js_env \<Rightarrow> booking \<Rightarrow> nat option" where
  "arrival_month env b =
     (case Date_parse env (arrival b) of None \<Rightarrow> None | Some t \<Rightarrow> Some (localMonth env t))"

primrec first_seen :: "'a list \<Rightarrow> 'a list" where
  "first_seen [] = []"
| "first_seen (x # xs) = x # removeAll x (first_seen xs)"

definition month_count :: "js_env \<Rightarrow> booking list \<Rightarrow> nat option \<Rightarrow> nat" where
  "month_count env cb m = length (filter (\<lambda>b. arrival_month env b = m) cb)"

definition month_row :: "js_env \<Rightarrow> booking list \<Rightarrow> nat option \<Rightarrow> month_entry" where
  "month_row env cb m =
     \<lparr>monthName = monthNames_at m, monthIndex = m, bookings = month_count env cb m\<rparr>"

definition channel_revenue :: "booking list \<Rightarrow> string \<Rightarrow> real" where
  "channel_revenue cb s = sum_list (map amount_or_zero (filter (\<lambda>b. source_label b = s) cb))"

definition channel_row :: "booking list \<Rightarrow> string \<Rightarrow> channel_entry" where
  "channel_row cb s = \<lparr>channelName = s, revenue = Num (channel_revenue cb s)\<rparr>"

text \<open>
  The order in which the labels come out when they were first seen in the order
  \<open>ks\<close>: labels that are array indices first, by ascending number, then the others as
  first seen.
\<close>

definition index_or_zero :: "string \<Rightarrow> nat" where
  "index_or_zero s = (case array_index s of Some n \<Rightarrow> n | None \<Rightarrow> 0)"

definition label_order :: "string list \<Rightarrow> string list" where
  "label_order ks =
     sort_key index_or_zero (filter (\<lambda>s. array_index s \<noteq> None) ks)
     @ filter (\<lambda>s. array_index s = None) ks"

section \<open>Sample data\<close>

text \<open>The source's \<open>MOCK_BOOKINGS\<close>.\<close>

definition MOCK_BOOKINGS :: "booking list" where
  "MOCK_BOOKINGS =
     [\<lparr>arrival = ''2024-01-15'', departure = ''2024-01-20'', total_amount = Some 500,
       source = Some ''Airbnb'', status = ''Booked'',
       creation_date = Some ''2023-12-15T10:00:00Z''\<rparr>,
      \<lparr>arrival = ''2024-02-10'', departure = ''2024-02-15'', total_amount = Some 650,
       source = Some ''Booking.com'', status = ''Booked'',
       creation_date = Some ''2024-01-10T10:00:00Z''\<rparr>,
      \<lparr>arrival = ''2024-02-20'', departure = ''2024-02-25'', total_amount = Some 550,
       source = Some ''Direct'', status = ''Booked'',
       creation_date = Some ''2024-02-01T10:00:00Z''\<rparr>,
      \<lparr>arrival = ''2024-03-05'', departure = ''2024-03-10'', total_amount = Some 700,
       source = Some ''Airbnb'', status = ''Cancelled'',
       creation_date = Some ''2024-02-15T10:00:00Z''\<rparr>]"

text \<open>
  A host for the concrete examples. It gives the date strings below their UTC time
  values, as every host does for these ISO forms, and takes any other string for an
  Invalid Date. Months are those of a host on UTC, between December 2023 and March 2024.
\<close>

definition sample_dates :: "(string \<times> int) list" where
  "sample_dates =
     [(''2024-01-15'', 1705276800000), (''2024-01-20'', 1705708800000),
      (''2024-02-10'', 1707523200000), (''2024-02-15'', 1707955200000),
      (''2024-02-20'', 1708387200000), (''2024-02-25'', 1708819200000),
      (''2024-03-05'', 1709596800000), (''2024-03-10'', 1710028800000),
      (''2024-02-01'', 1706745600000), (''2024-02-28'', 1709078400000),
      (''2023-12-15T10:00:00Z'', 1702634400000), (''2024-01-10T10:00:00Z'', 1704880800000),
      (''2024-02-01T10:00:00Z'', 1706781600000), (''2024-02-15T10:00:00Z'', 1707991200000)]"

definition sample_month :: "int \<Rightarrow> nat" where
  "sample_month t =
     (if t < 1704067200000 then 11
      else if t < 1706745600000 then 0
      else if t < 1709251200000 then 1
      else 2)"

definition sample_env :: js_env where
  "sample_env = \<lparr>Date_parse = map_of sample_dates, localMonth = sample_month\<rparr>"


text \<open>A confirmed booking whose arrival no host can parse.\<close>

definition undated_booking :: booking where
  "undated_booking =
     \<lparr>arrival = ''not a date'', departure = ''2024-01-20'', total_amount = Some 100,
      source = Some ''Direct'', status = ''Booked'', creation_date = None\<rparr>"


text \<open>Two more confirmed bookings: one made without a creation date, one whose dates are swapped.\<close>

definition walk_in_booking :: booking where
  "walk_in_booking =
     \<lparr>arrival = ''2024-02-20'', departure = ''2024-02-25'', total_amount = Some 550,
      source = Some ''Direct'', status = ''Booked'', creation_date = None\<rparr>"

definition misordered_booking :: booking where
  "misordered_booking =
     \<lparr>arrival = ''2024-01-20'', departure = ''2024-01-15'', total_amount = Some 500,
      source = Some ''Airbnb'', status = ''Booked'', creation_date = None\<rparr>"


text \<open>A confirmed booking whose channel label is a number.\<close>

definition numbered_channel_booking :: booking where
  "numbered_channel_booking =
     \<lparr>arrival = ''2024-03-05'', departure = ''2024-03-10'', total_amount = Some 700,
      source = Some ''2'', status = ''Booked'', creation_date = None\<rparr>"

text \<open>
  Three more records: a tentative one, which is neither confirmed nor cancelled, and
  two confirmed ones without a usable source.
\<close>

definition tentative_booking :: booking where
  "tentative_booking =
     \<lparr>arrival = ''2024-03-10'', departure = ''2024-03-05'', total_amount = Some 900,
      source = Some ''Expedia'', status = ''Tentative'',
      creation_date = Some ''2024-02-15T10:00:00Z''\<rparr>"

definition unlabelled_booking :: booking where
  "unlabelled_booking =
     \<lparr>arrival = ''2024-02-10'', departure = ''2024-02-15'', total_amount = Some 120,
      source = None, status = ''Booked'', creation_date = None\<rparr>"

definition blank_source_booking :: booking where
  "blank_source_booking =
     \<lparr>arrival = ''2024-02-20'', departure = ''2024-02-25'', total_amount = Some 80,
      source = Some [], status = ''Booked'', creation_date = Some []\<rparr>"

definition mixed_bookings :: "booking list" where
  "mixed_bookings =
     MOCK_BOOKINGS
     @ [numbered_channel_booking, walk_in_booking, unlabelled_booking, blank_source_booking,
        tentative_booking]"

section \<open>Properties of the filter\<close>

lemma js_ge_new_Date:
  "js_ge (new_Date env a) (new_Date env s) = on_or_after (Date_parse env a) (Date_parse env s)"
  by (auto simp add: js_ge_def js_le_def new_Date_def on_or_after_def split: option.splits)

lemma js_le_new_Date:
  "js_le (new_Date env a) (new_Date env e) = on_or_before (Date_parse env a) (Date_parse env e)"
  by (auto simp add: js_le_def new_Date_def on_or_before_def split: option.splits)

text \<open>
  C3. The date-range filter is a four-case contract. With both bounds absent the input
  comes back unchanged; with only \<open>startDate\<close> exactly the records arriving on or
  after it are kept; with only \<open>endDate\<close> exactly those arriving on or before it; with
  both, exactly those inside the inclusive range. Whenever a bound is present, a record
  whose arrival is unparseable is dropped.
\<close>

theorem filteredBookings_four_cases:
  "(startDate = [] \<and> endDate = [] \<longrightarrow> filteredBookings env startDate endDate bs = bs)
 \<and> (startDate \<noteq> [] \<and> endDate = [] \<longrightarrow>
      filteredBookings env startDate endDate bs =
        filter (\<lambda>b. on_or_after (Date_parse env (arrival b)) (Date_parse env startDate)) bs)
 \<and> (startDate = [] \<and> endDate \<noteq> [] \<longrightarrow>
      filteredBookings env startDate endDate bs =
        filter (\<lambda>b. on_or_before (Date_parse env (arrival b)) (Date_parse env endDate)) bs)
 \<and> (startDate \<noteq> [] \<and> endDate \<noteq> [] \<longrightarrow>
      filteredBookings env startDate endDate bs =
        filter (\<lambda>b. on_or_after (Date_parse env (arrival b)) (Date_parse env startDate)
                  \<and> on_or_before (Date_parse env (arrival b)) (Date_parse env endDate)) bs)
 \<and> ((startDate \<noteq> [] \<or> endDate \<noteq> []) \<and> Date_parse env (arrival b) = None \<longrightarrow>
      b \<notin> set (filteredBookings env startDate endDate bs))"
proof -
  have unparsed: "\<not> inDateRange env startDate endDate b"
    if "startDate \<noteq> [] \<or> endDate \<noteq> []" and "Date_parse env (arrival b) = None"
    using that
    by (auto simp add: inDateRange_def js_ge_new_Date js_le_new_Date
          on_or_after_def on_or_before_def)
  show ?thesis
    using unparsed
    by (auto simp add: filteredBookings_def inDateRange_def js_ge_new_Date js_le_new_Date
          cong: filter_cong)
qed

theorem filteredBookings_four_cases_witness:
  "filteredBookings sample_env [] [] (undated_booking # MOCK_BOOKINGS)
     = undated_booking # MOCK_BOOKINGS
 \<and> filteredBookings sample_env ''2024-02-10'' [] (undated_booking # MOCK_BOOKINGS)
     = drop 1 MOCK_BOOKINGS
 \<and> filteredBookings sample_env [] ''2024-02-10'' (undated_booking # MOCK_BOOKINGS)
     = take 2 MOCK_BOOKINGS
 \<and> filteredBookings sample_env ''2024-02-10'' ''2024-02-20'' (undated_booking # MOCK_BOOKINGS)
     = take 2 (drop 1 MOCK_BOOKINGS)
 \<and> undated_booking
     \<notin> set (filteredBookings sample_env ''2024-02-10'' [] (undated_booking # MOCK_BOOKINGS))"
  using filteredBookings_four_cases
          [of "[]" "[]" sample_env "undated_booking # MOCK_BOOKINGS" undated_booking]
        filteredBookings_four_cases
          [of "''2024-02-10''" "[]" sample_env "undated_booking # MOCK_BOOKINGS" undated_booking]
        filteredBookings_four_cases
          [of "[]" "''2024-02-10''" sample_env "undated_booking # MOCK_BOOKINGS" undated_booking]
        filteredBookings_four_cases
          [of "''2024-02-10''" "''2024-02-20''" sample_env "undated_booking # MOCK_BOOKINGS"
              undated_booking]
  by (simp add: MOCK_BOOKINGS_def undated_booking_def sample_env_def sample_dates_def
        on_or_after_def on_or_before_def)

text \<open>
  C9. The date-range filter is idempotent: filtering an already filtered list with the
  same bounds gives the same elements in the same order.
\<close>

theorem filteredBookings_idempotent:
  "filteredBookings env startDate endDate (filteredBookings env startDate endDate bs)
     = filteredBookings env startDate endDate bs"
  by (simp add: filteredBookings_def)

section \<open>Properties of the aggregation\<close>

lemma length_cancelled_le: "length (cancelledBookings fb) \<le> length fb"
  by (simp add: cancelledBookings_def)

text \<open>
  C2. The cancellation rate is the number of records with status \<open>Cancelled\<close> divided
  by the length of the whole filtered list, times 100, when the list is non-empty, and
  0 when it is empty. The value always lies between 0 and 100.
\<close>

theorem cancellationRate_value:
  "cancellationRate fb =
     (if fb \<noteq> []
      then Num (real (length (filter (\<lambda>b. status b = ''Cancelled'') fb)) / real (length fb) * 100)
      else Num 0)
   \<and> (\<exists>r. cancellationRate fb = Num r \<and> 0 \<le> r \<and> r \<le> 100)"
proof (cases "fb = []")
  case True
  then show ?thesis by (simp add: cancellationRate_def)
next
  case False
  define q where "q = real (length (cancelledBookings fb)) / real (length fb)"
  from False have n: "0 < real (length fb)" by simp
  have eq: "cancellationRate fb = Num (q * 100)"
    using False by (simp add: cancellationRate_def q_def)
  have "real (length (cancelledBookings fb)) \<le> real (length fb)"
    using length_cancelled_le [of fb] by simp
  with n have "q \<le> 1" unfolding q_def by (simp add: divide_le_eq_1)
  moreover have "0 \<le> q" unfolding q_def by simp
  ultimately have "0 \<le> q * 100 \<and> q * 100 \<le> 100" by linarith
  with eq False show ?thesis unfolding q_def by (simp add: cancelledBookings_def)
qed

text \<open>
  C5. Aggregating the empty booking sequence, under any date bounds, returns every
  scalar equal to 0 and both series empty; the computation is total, so nothing is
  raised.
\<close>

theorem processedData_empty:
  "processedData env (Some []) startDate endDate =
     Some \<lparr>r_totalRevenue = Num 0, r_totalBookings = 0, r_avgBookingValue = Num 0,
           r_avgNightlyRate = Num 0, r_bookingsByMonth = [], r_revenueByChannel = [],
           r_totalNights = Num 0, r_avgLengthOfStay = Num 0, r_avgLeadTime = Num 0,
           r_cancellationRate = Num 0, r_filteredBookings = []\<rparr>"
  by (simp add: processedData_def filteredBookings_def aggregate_def confirmedBookings_def
        totalRevenue_def totalBookings_def avgBookingValue_def avgNightlyRate_def
        totalNights_def avgLengthOfStay_def totalLeadTime_def avgLeadTime_def
        cancellationRate_def bookingsByMonth_def revenueByChannel_def chartData_def
        Object_values_def js_gt_def)

lemma foldl_js_add_Num:
  "(\<And>b. f b = Num (g b)) \<Longrightarrow>
   foldl (\<lambda>acc b. js_add acc (f b)) (Num a) xs = Num (a + sum_list (map g xs))"
  by (induction xs arbitrary: a) (simp_all add: add.assoc)

lemma amount_Num: "amount b = Num (amount_or_zero b)"
  by (simp add: amount_def amount_or_zero_def or_zero_def split: option.splits)

lemma nights_Num: "nights env b = Num (night_diff env b)"
  by (simp add: nights_def night_diff_def or_zero_def new_Date_def js_sub_def msPerDay_def
        split: option.splits)

lemma totalRevenue_sum: "totalRevenue cb = Num (sum_list (map amount_or_zero cb))"
  using foldl_js_add_Num [of amount amount_or_zero 0 cb]
  by (simp add: totalRevenue_def amount_Num)

lemma totalNights_sum: "totalNights env cb = Num (sum_list (map (night_diff env) cb))"
  using foldl_js_add_Num [of "nights env" "night_diff env" 0 cb]
  by (simp add: totalNights_def nights_Num)

text \<open>
  C8. No division by zero occurs. Each average is a finite number: the booking value is
  revenue over the number of confirmed bookings when that number is positive and 0
  otherwise; the nightly rate is revenue over total nights when the total is positive
  and 0 otherwise; the length of stay is total nights over the number of confirmed
  bookings when that number is positive and 0 otherwise.
\<close>

theorem averages_guarded:
  "avgBookingValue (confirmedBookings fb) =
     Num (if 0 < length (confirmedBookings fb)
          then sum_list (map amount_or_zero (confirmedBookings fb))
                 / real (length (confirmedBookings fb))
          else 0)
 \<and> avgNightlyRate env (confirmedBookings fb) =
     Num (if 0 < sum_list (map (night_diff env) (confirmedBookings fb))
          then sum_list (map amount_or_zero (confirmedBookings fb))
                 / sum_list (map (night_diff env) (confirmedBookings fb))
          else 0)
 \<and> avgLengthOfStay env (confirmedBookings fb) =
     Num (if 0 < length (confirmedBookings fb)
          then sum_list (map (night_diff env) (confirmedBookings fb))
                 / real (length (confirmedBookings fb))
          else 0)"
  by (simp add: avgBookingValue_def avgNightlyRate_def avgLengthOfStay_def totalBookings_def
        totalRevenue_sum totalNights_sum js_gt_def)

lemma leadTimeStep_Num:
  "leadTimeStep env (Num a) b =
     Num (a + (if has_creation_date b then lead_contribution env b else 0))"
  by (auto simp add: leadTimeStep_def has_creation_date_def lead_contribution_def lead_days_def
        leadDays_def new_Date_def js_sub_def js_gt_def msPerDay_def max_def
        split: option.splits)

lemma foldl_leadTimeStep:
  "foldl (leadTimeStep env) (Num a) cb =
     Num (a + sum_list (map (lead_contribution env) (filter has_creation_date cb)))"
  by (induction cb arbitrary: a) (simp_all add: leadTimeStep_Num add.assoc)

lemma totalLeadTime_sum:
  "totalLeadTime env cb = Num (sum_list (map (lead_contribution env) (filter has_creation_date cb)))"
  using foldl_leadTimeStep [of env 0 cb] by (simp add: totalLeadTime_def)

lemma lead_filter_booked:
  "filter has_creation_date (confirmedBookings fb)
     = filter (\<lambda>b. status b = ''Booked'' \<and> has_creation_date b) fb"
  by (simp add: confirmedBookings_def)

lemma totalLeadTime_booked:
  "totalLeadTime env (confirmedBookings fb) = Num (lead_time_sum env fb)"
  by (simp add: totalLeadTime_sum lead_filter_booked lead_time_sum_def)

lemma totalBookings_booked: "totalBookings (confirmedBookings fb) = booked_count fb"
  by (simp add: totalBookings_def confirmedBookings_def booked_count_def)

lemma avgLeadTime_aggregate:
  "r_avgLeadTime (aggregate env fb) =
     Num (if 0 < booked_count fb then lead_time_sum env fb / real (booked_count fb) else 0)"
  by (simp add: aggregate_def Let_def avgLeadTime_def totalLeadTime_booked totalBookings_booked)

text \<open>
  C1. The average lead time of a filtered list: every record with status \<open>Booked\<close>
  that has a creation date adds its lead time in days, floored at 0, to the sum; the
  average is that sum over the number of all records with status \<open>Booked\<close> when there
  is one, and 0 otherwise. Confirmed bookings without a creation date add nothing and
  still count in the denominator.
\<close>

theorem avgLeadTime_value:
  "r_avgLeadTime (aggregate env fb) =
     Num (if 0 < length (filter (\<lambda>b. status b = ''Booked'') fb)
          then sum_list (map (lead_contribution env)
                          (filter (\<lambda>b. status b = ''Booked'' \<and> has_creation_date b) fb))
                 / real (length (filter (\<lambda>b. status b = ''Booked'') fb))
          else 0)"
  by (simp add: avgLeadTime_aggregate booked_count_def lead_time_sum_def)

text \<open>
  The sample data, where the cancelled record has a creation date, and the mixed list,
  which adds four confirmed records without creation date and a tentative record with
  one.
\<close>

theorem avgLeadTime_value_witness:
  "r_avgLeadTime (aggregate sample_env MOCK_BOOKINGS) = Num (319 / 12)
 \<and> r_avgLeadTime (aggregate sample_env mixed_bookings) = Num (319 / 28)"
  using avgLeadTime_value [of sample_env MOCK_BOOKINGS]
        avgLeadTime_value [of sample_env mixed_bookings]
  by (simp add: mixed_bookings_def MOCK_BOOKINGS_def walk_in_booking_def
        numbered_channel_booking_def unlabelled_booking_def blank_source_booking_def
        tentative_booking_def has_creation_date_def lead_contribution_def lead_days_def
        sample_env_def sample_dates_def)

text \<open>
  C10. A confirmed booking whose arrival or departure is unparseable contributes
  exactly 0 nights, so the total is always a finite number; a negative difference from
  swapped but parseable dates is kept and enters the sum.
\<close>

theorem nights_unparseable_zero:
  "(Date_parse env (arrival b) = None \<or> Date_parse env (departure b) = None
      \<longrightarrow> nights env b = Num 0)
 \<and> (\<forall>a d. Date_parse env (arrival b) = Some a \<and> Date_parse env (departure b) = Some d \<and> d < a
      \<longrightarrow> nights env b = Num (real_of_int (d - a) / 86400000)
          \<and> real_of_int (d - a) / 86400000 < 0)
 \<and> totalNights env (confirmedBookings fb)
      = Num (sum_list (map (night_diff env) (confirmedBookings fb)))
 \<and> totalNights env (cb @ [b]) = js_add (totalNights env cb) (nights env b)"
proof -
  have "nights env b = Num 0"
    if "Date_parse env (arrival b) = None \<or> Date_parse env (departure b) = None"
    using that by (auto simp add: nights_Num night_diff_def split: option.splits)
  moreover have "nights env b = Num (real_of_int (d - a) / 86400000)
      \<and> real_of_int (d - a) / 86400000 < 0"
    if "Date_parse env (arrival b) = Some a" "Date_parse env (departure b) = Some d" "d < a"
    for a d
    using that by (simp add: nights_Num night_diff_def)
  moreover have "totalNights env (cb @ [b]) = js_add (totalNights env cb) (nights env b)"
    by (simp add: totalNights_def)
  ultimately show ?thesis
    using totalNights_sum [of env "confirmedBookings fb"] by blast
qed

theorem nights_unparseable_zero_witness:
  "nights sample_env undated_booking = Num 0
 \<and> nights sample_env misordered_booking = Num (- 5)
 \<and> totalNights sample_env (confirmedBookings (misordered_booking # MOCK_BOOKINGS)) = Num 10
 \<and> totalNights sample_env ([hd MOCK_BOOKINGS] @ [misordered_booking]) = Num 0"
  using nights_unparseable_zero [of sample_env undated_booking "[]" "[]"]
        nights_unparseable_zero [of sample_env misordered_booking
           "misordered_booking # MOCK_BOOKINGS" "[hd MOCK_BOOKINGS]"]
  by (simp add: MOCK_BOOKINGS_def undated_booking_def misordered_booking_def
        confirmedBookings_def night_diff_def totalNights_def nights_def new_Date_def
        js_sub_def msPerDay_def or_zero_def sample_env_def sample_dates_def)


lemma confirmedBookings_map_creation:
  "confirmedBookings (map (\<lambda>b. b\<lparr>creation_date := g b\<rparr>) fb)
     = map (\<lambda>b. b\<lparr>creation_date := g b\<rparr>) (confirmedBookings fb)"
  by (simp add: confirmedBookings_def filter_map comp_def)

lemma cancellationRate_map_creation:
  "cancellationRate (map (\<lambda>b. b\<lparr>creation_date := g b\<rparr>) fb) = cancellationRate fb"
  by (simp add: cancellationRate_def cancelledBookings_def filter_map comp_def)

lemma totalRevenue_map_creation:
  "totalRevenue (map (\<lambda>b. b\<lparr>creation_date := g b\<rparr>) cb) = totalRevenue cb"
  by (simp add: totalRevenue_def foldl_map amount_def)

lemma totalNights_map_creation:
  "totalNights env (map (\<lambda>b. b\<lparr>creation_date := g b\<rparr>) cb) = totalNights env cb"
  by (simp add: totalNights_def foldl_map nights_def)

lemma amount_creation: "amount (b\<lparr>creation_date := c\<rparr>) = amount b"
  by (simp add: amount_def)

lemma chartStep_creation:
  "chartStep env st (b\<lparr>creation_date := c\<rparr>) = chartStep env st b"
  by (simp add: chartStep_def monthStep_def channelStep_def channelOf_def amount_creation
        Let_def cong: option.case_cong)

lemma chartData_map_creation:
  "chartData env (map (\<lambda>b. b\<lparr>creation_date := g b\<rparr>) cb) = chartData env cb"
  by (simp add: chartData_def foldl_map chartStep_creation)

lemma aggregate_ignores_creation_date:
  "(aggregate env (map (\<lambda>b. b\<lparr>creation_date := g b\<rparr>) fb))
       \<lparr>r_avgLeadTime := v, r_filteredBookings := w\<rparr>
   = (aggregate env fb)\<lparr>r_avgLeadTime := v, r_filteredBookings := w\<rparr>"
  by (simp add: aggregate_def Let_def confirmedBookings_map_creation totalRevenue_map_creation
        totalNights_map_creation chartData_map_creation cancellationRate_map_creation
        totalBookings_def avgBookingValue_def avgNightlyRate_def avgLengthOfStay_def
        bookingsByMonth_def revenueByChannel_def)

text \<open>
  C4 as stated fails: a confirmed booking without creation date changes the average
  lead time.
\<close>

theorem absent_creation_date_counterexample:
  "status walk_in_booking = ''Booked'' \<and> creation_date walk_in_booking = None
 \<and> avgLeadTime sample_env (confirmedBookings [hd MOCK_BOOKINGS, walk_in_booking])
     \<noteq> avgLeadTime sample_env (confirmedBookings [hd MOCK_BOOKINGS])"
  by (simp add: MOCK_BOOKINGS_def walk_in_booking_def confirmedBookings_def avgLeadTime_def
        totalBookings_def totalLeadTime_def leadTimeStep_def leadDays_def new_Date_def
        js_sub_def js_gt_def msPerDay_def sample_env_def sample_dates_def)

lemma lead_contribution_nonneg: "0 \<le> lead_contribution env b"
  by (simp add: lead_contribution_def split: option.splits)

lemma lead_time_sum_nonneg: "0 \<le> lead_time_sum env fb"
  unfolding lead_time_sum_def by (rule sum_list_nonneg) (auto simp add: lead_contribution_nonneg)

lemma lead_time_sum_no_booked: "booked_count fb = 0 \<Longrightarrow> lead_time_sum env fb = 0"
proof -
  assume "booked_count fb = 0"
  then have "\<forall>b \<in> set fb. status b \<noteq> ''Booked''"
    by (simp add: booked_count_def filter_empty_conv)
  then have "filter (\<lambda>b. status b = ''Booked'' \<and> has_creation_date b) fb = []"
    by (simp add: filter_empty_conv)
  then show ?thesis by (simp add: lead_time_sum_def)
qed

lemma lead_time_sum_skip:
  "\<not> has_creation_date b \<Longrightarrow> lead_time_sum env (xs @ b # ys) = lead_time_sum env (xs @ ys)"
  by (simp add: lead_time_sum_def)

lemma booked_count_insert:
  "status b = ''Booked'' \<Longrightarrow> booked_count (xs @ b # ys) = Suc (booked_count (xs @ ys))"
  by (simp add: booked_count_def)

lemma quotient_lower:
  fixes s :: real
  assumes "0 < s" and "0 < n"
  shows "s / real (Suc n) < s / real n"
  using assms by (intro divide_strict_left_mono) simp_all

text \<open>
  C4, amended. A confirmed booking without creation date adds nothing to the lead-time
  sum, but it counts in \<open>totalBookings\<close>, the denominator of the average lead time:
  with sum \<open>S\<close> and \<open>n\<close> confirmed bookings before, the average becomes
  \<open>S / (n + 1)\<close>. That is lower than before when \<open>S\<close> is positive, and the same,
  namely 0, when \<open>S\<close> is 0. Creation dates influence no other field of the result,
  apart from the filtered list that holds the records themselves.
\<close>

theorem absent_creation_date_effect:
  "status b = ''Booked'' \<and> \<not> has_creation_date b \<longrightarrow>
     totalLeadTime env (confirmedBookings (xs @ b # ys)) = Num (lead_time_sum env (xs @ ys))
   \<and> totalLeadTime env (confirmedBookings (xs @ ys)) = Num (lead_time_sum env (xs @ ys))
   \<and> r_totalBookings (aggregate env (xs @ b # ys)) = Suc (booked_count (xs @ ys))
   \<and> r_totalBookings (aggregate env (xs @ ys)) = booked_count (xs @ ys)
   \<and> r_avgLeadTime (aggregate env (xs @ b # ys))
       = Num (lead_time_sum env (xs @ ys) / real (Suc (booked_count (xs @ ys))))
   \<and> r_avgLeadTime (aggregate env (xs @ ys))
       = Num (if 0 < booked_count (xs @ ys)
              then lead_time_sum env (xs @ ys) / real (booked_count (xs @ ys)) else 0)
   \<and> 0 \<le> lead_time_sum env (xs @ ys)
   \<and> (0 < lead_time_sum env (xs @ ys) \<longrightarrow>
        js_lt (r_avgLeadTime (aggregate env (xs @ b # ys)))
              (r_avgLeadTime (aggregate env (xs @ ys))))
   \<and> (lead_time_sum env (xs @ ys) = 0 \<longrightarrow>
        r_avgLeadTime (aggregate env (xs @ b # ys)) = Num 0
      \<and> r_avgLeadTime (aggregate env (xs @ ys)) = Num 0)
   \<and> (aggregate env (map (\<lambda>x. x\<lparr>creation_date := g x\<rparr>) fb))
         \<lparr>r_avgLeadTime := v, r_filteredBookings := w\<rparr>
       = (aggregate env fb)\<lparr>r_avgLeadTime := v, r_filteredBookings := w\<rparr>"
proof (intro impI, elim conjE)
  assume booked: "status b = ''Booked''" and absent: "\<not> has_creation_date b"
  let ?S = "lead_time_sum env (xs @ ys)" and ?n = "booked_count (xs @ ys)"
  have sum': "totalLeadTime env (confirmedBookings (xs @ b # ys)) = Num ?S"
    using absent by (simp add: totalLeadTime_booked lead_time_sum_skip)
  have sum: "totalLeadTime env (confirmedBookings (xs @ ys)) = Num ?S"
    by (rule totalLeadTime_booked)
  have cnt': "r_totalBookings (aggregate env (xs @ b # ys)) = Suc ?n"
    using booked by (simp add: aggregate_def Let_def totalBookings_booked booked_count_insert)
  have cnt: "r_totalBookings (aggregate env (xs @ ys)) = ?n"
    by (simp add: aggregate_def Let_def totalBookings_booked)
  have avg': "r_avgLeadTime (aggregate env (xs @ b # ys)) = Num (?S / real (Suc ?n))"
    using booked absent
    by (simp add: avgLeadTime_aggregate booked_count_insert lead_time_sum_skip)
  have avg: "r_avgLeadTime (aggregate env (xs @ ys))
       = Num (if 0 < ?n then ?S / real ?n else 0)"
    by (rule avgLeadTime_aggregate)
  have nonneg: "0 \<le> ?S" by (rule lead_time_sum_nonneg)
  have lower: "js_lt (r_avgLeadTime (aggregate env (xs @ b # ys)))
                     (r_avgLeadTime (aggregate env (xs @ ys)))" if pos: "0 < ?S"
  proof -
    from pos have "0 < ?n"
      using lead_time_sum_no_booked [of "xs @ ys" env] by (cases "?n = 0") simp_all
    with pos have "?S / real (Suc ?n) < ?S / real ?n" by (rule quotient_lower)
    with \<open>0 < ?n\<close> show ?thesis unfolding avg' avg by simp
  qed
  have same: "r_avgLeadTime (aggregate env (xs @ b # ys)) = Num 0
      \<and> r_avgLeadTime (aggregate env (xs @ ys)) = Num 0" if "?S = 0"
    unfolding avg' avg using that by simp
  show "totalLeadTime env (confirmedBookings (xs @ b # ys)) = Num ?S
   \<and> totalLeadTime env (confirmedBookings (xs @ ys)) = Num ?S
   \<and> r_totalBookings (aggregate env (xs @ b # ys)) = Suc ?n
   \<and> r_totalBookings (aggregate env (xs @ ys)) = ?n
   \<and> r_avgLeadTime (aggregate env (xs @ b # ys)) = Num (?S / real (Suc ?n))
   \<and> r_avgLeadTime (aggregate env (xs @ ys)) = Num (if 0 < ?n then ?S / real ?n else 0)
   \<and> 0 \<le> ?S
   \<and> (0 < ?S \<longrightarrow>
        js_lt (r_avgLeadTime (aggregate env (xs @ b # ys)))
              (r_avgLeadTime (aggregate env (xs @ ys))))
   \<and> (?S = 0 \<longrightarrow>
        r_avgLeadTime (aggregate env (xs @ b # ys)) = Num 0
      \<and> r_avgLeadTime (aggregate env (xs @ ys)) = Num 0)
   \<and> (aggregate env (map (\<lambda>x. x\<lparr>creation_date := g x\<rparr>) fb))
         \<lparr>r_avgLeadTime := v, r_filteredBookings := w\<rparr>
       = (aggregate env fb)\<lparr>r_avgLeadTime := v, r_filteredBookings := w\<rparr>"
    using sum' sum cnt' cnt avg' avg nonneg lower same
      aggregate_ignores_creation_date [where env = env and g = g and fb = fb and v = v and w = w]
    by blast
qed

text \<open>
  With one sample booking and the tentative record before it, the walk-in booking
  halves the average; with the tentative record alone, the average is 0 before and after.
\<close>

theorem absent_creation_date_effect_witness:
  "status walk_in_booking = ''Booked'' \<and> \<not> has_creation_date walk_in_booking
 \<and> lead_time_sum sample_env ([hd MOCK_BOOKINGS, tentative_booking] @ []) = 367 / 12
 \<and> r_avgLeadTime (aggregate sample_env ([hd MOCK_BOOKINGS, tentative_booking] @ []))
     = Num (367 / 12)
 \<and> r_avgLeadTime (aggregate sample_env ([hd MOCK_BOOKINGS, tentative_booking] @ walk_in_booking # []))
     = Num (367 / 24)
 \<and> js_lt (r_avgLeadTime (aggregate sample_env
             ([hd MOCK_BOOKINGS, tentative_booking] @ walk_in_booking # [])))
          (r_avgLeadTime (aggregate sample_env ([hd MOCK_BOOKINGS, tentative_booking] @ [])))
 \<and> lead_time_sum sample_env ([tentative_booking] @ []) = 0
 \<and> r_avgLeadTime (aggregate sample_env ([tentative_booking] @ walk_in_booking # [])) = Num 0
 \<and> r_avgLeadTime (aggregate sample_env ([tentative_booking] @ [])) = Num 0"
proof -
  have hyp: "status walk_in_booking = ''Booked'' \<and> \<not> has_creation_date walk_in_booking"
    by (simp add: walk_in_booking_def has_creation_date_def)
  have s1: "lead_time_sum sample_env ([hd MOCK_BOOKINGS, tentative_booking] @ []) = 367 / 12"
    by (simp add: MOCK_BOOKINGS_def tentative_booking_def lead_time_sum_def
          has_creation_date_def lead_contribution_def lead_days_def
          sample_env_def sample_dates_def)
  have n1: "booked_count ([hd MOCK_BOOKINGS, tentative_booking] @ []) = 1"
    by (simp add: MOCK_BOOKINGS_def tentative_booking_def booked_count_def)
  have s2: "lead_time_sum sample_env ([tentative_booking] @ []) = 0"
    by (simp add: tentative_booking_def lead_time_sum_def)
  show ?thesis
    using hyp s1 n1 s2
      absent_creation_date_effect
        [where b = walk_in_booking and env = sample_env
           and xs = "[hd MOCK_BOOKINGS, tentative_booking]" and ys = "[]"
           and g = "\<lambda>x. None" and fb = "[]" and v = NaN and w = "[]"]
      absent_creation_date_effect
        [where b = walk_in_booking and env = sample_env
           and xs = "[tentative_booking]" and ys = "[]"
           and g = "\<lambda>x. None" and fb = "[]" and v = NaN and w = "[]"]
    by simp
qed

section \<open>Properties of the chart series\<close>

lemma set_first_seen: "set (first_seen xs) = set xs"
  by (induction xs) auto

lemma distinct_first_seen: "distinct (first_seen xs)"
  by (induction xs) (auto simp add: distinct_removeAll)

lemma first_seen_snoc:
  "first_seen (xs @ [x]) = (if x \<in> set xs then first_seen xs else first_seen xs @ [x])"
  by (induction xs) (auto simp add: set_first_seen)

lemma set_prop_map_present:
  "distinct ks \<Longrightarrow> k \<in> set ks \<Longrightarrow>
   set_prop k v (map (\<lambda>s. (s, f s)) ks) = map (\<lambda>s. (s, if s = k then v else f s)) ks"
  by (induction ks) auto

lemma set_prop_map_absent:
  "k \<notin> set ks \<Longrightarrow> set_prop k v (map (\<lambda>s. (s, f s)) ks) = map (\<lambda>s. (s, f s)) ks @ [(k, v)]"
  by (induction ks) auto

lemma map_of_map_key:
  "map_of (map (\<lambda>s. (s, f s)) ks) k = (if k \<in> set ks then Some (f k) else None)"
  by (induction ks) auto

lemma js_sort_id:
  "sorted_wrt (\<lambda>a b. \<not> js_gt (sortCompare cmp a b) (Num 0)) xs \<Longrightarrow> js_sort cmp xs = xs"
proof (induction xs)
  case Nil
  then show ?case by simp
next
  case (Cons x xs)
  then have "js_sort cmp xs = xs" by simp
  with Cons.prems show ?case by (cases xs) auto
qed

lemma sort_key_map_pair:
  "sort_key f (map g xs) = map g (sort_key (\<lambda>a. f (g a)) xs)"
proof (induction xs)
  case Nil
  then show ?case by simp
next
  case (Cons x xs)
  have ins: "insort_key f (g x) (map g ys) = map g (insort_key (\<lambda>a. f (g a)) x ys)" for ys
    by (induction ys) auto
  from Cons ins show ?case by simp
qed

lemma Object_values_map:
  "Object_values idx (map (\<lambda>s. (s, f s)) ks) =
     map f (sort_key (\<lambda>s. case idx s of Some n \<Rightarrow> n | None \<Rightarrow> 0) (filter (\<lambda>s. idx s \<noteq> None) ks))
     @ map f (filter (\<lambda>s. idx s = None) ks)"
proof -
  have a: "filter (\<lambda>p. idx (fst p) \<noteq> None) (map (\<lambda>s. (s, f s)) ks)
        = map (\<lambda>s. (s, f s)) (filter (\<lambda>s. idx s \<noteq> None) ks)"
    by (simp add: filter_map comp_def)
  have b: "filter (\<lambda>p. idx (fst p) = None) (map (\<lambda>s. (s, f s)) ks)
        = map (\<lambda>s. (s, f s)) (filter (\<lambda>s. idx s = None) ks)"
    by (simp add: filter_map comp_def)
  have c: "(\<lambda>s. index_of_key idx (s, f s)) = (\<lambda>s. case idx s of Some n \<Rightarrow> n | None \<Rightarrow> 0)"
    by (simp add: fun_eq_iff index_of_key_def)
  show ?thesis
    unfolding Object_values_def a b sort_key_map_pair c by (simp add: comp_def)
qed


lemma upsert_map:
  assumes "distinct ks" and "k \<notin> set ks \<Longrightarrow> f k = init"
  shows "(let md1 = (case map_of (map (\<lambda>s. (s, f s)) ks) k of
                       None \<Rightarrow> set_prop k init (map (\<lambda>s. (s, f s)) ks)
                     | Some _ \<Rightarrow> map (\<lambda>s. (s, f s)) ks)
          in case map_of md1 k of None \<Rightarrow> md1 | Some e \<Rightarrow> set_prop k (upd e) md1)
         = map (\<lambda>s. (s, if s = k then upd (f k) else f s))
               (if k \<in> set ks then ks else ks @ [k])"
proof (cases "k \<in> set ks")
  case True
  with assms(1) show ?thesis
    by (simp add: map_of_map_key set_prop_map_present)
next
  case False
  have one: "set_prop k init (map (\<lambda>s. (s, f s)) ks) = map (\<lambda>s. (s, f s)) (ks @ [k])"
    using False assms(2) by (simp add: set_prop_map_absent)
  have two: "set_prop k v (map (\<lambda>s. (s, f s)) (ks @ [k]))
           = map (\<lambda>s. (s, if s = k then v else f s)) (ks @ [k])" for v
    using False assms(1) by (intro set_prop_map_present) auto
  from False show ?thesis
    unfolding Let_def by (simp only: map_of_map_key one two if_False option.case) simp
qed


lemma channelOf_label: "channelOf b = source_label b"
  by (simp add: channelOf_def source_label_def)

lemma getMonth_arrival: "getMonth env (arrival b) = arrival_month env b"
  by (simp add: getMonth_def arrival_month_def split: option.splits)

lemma confirmed_is_booked: "confirmedBookings fb = filter (\<lambda>b. status b = ''Booked'') fb"
  by (simp add: confirmedBookings_def)

lemma channel_revenue_unseen:
  "s \<notin> set (map source_label cb) \<Longrightarrow> channel_revenue cb s = 0"
proof -
  assume "s \<notin> set (map source_label cb)"
  then have "filter (\<lambda>b. source_label b = s) cb = []"
    by (auto simp add: filter_empty_conv)
  then show ?thesis by (simp add: channel_revenue_def)
qed

lemma channel_revenue_snoc:
  "channel_revenue (cb @ [b]) s =
     channel_revenue cb s + (if source_label b = s then amount_or_zero b else 0)"
  by (simp add: channel_revenue_def)

lemma channelStep_rows:
  assumes "source_label b \<notin> set Object_prototype_names"
  shows "channelStep (map (\<lambda>s. (s, channel_row cb s)) (first_seen (map source_label cb))) b
         = map (\<lambda>s. (s, channel_row (cb @ [b]) s)) (first_seen (map source_label (cb @ [b])))"
proof -
  let ?ks = "first_seen (map source_label cb)"
  let ?k = "source_label b"
  let ?init = "\<lparr>channelName = ?k, revenue = Num 0\<rparr>"
  let ?upd = "\<lambda>e. e\<lparr>revenue := js_add (revenue e) (amount b)\<rparr>"
  have init: "channel_row cb ?k = ?init" if "?k \<notin> set ?ks"
    using that channel_revenue_unseen [of ?k cb]
    by (simp add: set_first_seen channel_row_def)
  have step: "channelStep (map (\<lambda>s. (s, channel_row cb s)) ?ks) b
      = map (\<lambda>s. (s, if s = ?k then ?upd (channel_row cb ?k) else channel_row cb s))
            (if ?k \<in> set ?ks then ?ks else ?ks @ [?k])"
    using upsert_map [where ks = ?ks and k = ?k and f = "channel_row cb" and init = ?init
                        and upd = ?upd, OF distinct_first_seen init] assms
    by (simp add: channelStep_def channelOf_label Let_def)
  have rows: "(if s = ?k then ?upd (channel_row cb ?k) else channel_row cb s)
      = channel_row (cb @ [b]) s" for s
    by (simp add: channel_row_def channel_revenue_snoc amount_Num)
  have keys: "(if ?k \<in> set ?ks then ?ks else ?ks @ [?k]) = first_seen (map source_label (cb @ [b]))"
    by (simp add: first_seen_snoc set_first_seen)
  show ?thesis unfolding step rows keys ..
qed

lemma channelData_rows:
  "\<forall>b \<in> set cb. source_label b \<notin> set Object_prototype_names \<Longrightarrow>
   foldl channelStep [] cb = map (\<lambda>s. (s, channel_row cb s)) (first_seen (map source_label cb))"
proof (induction cb rule: rev_induct)
  case Nil
  then show ?case by simp
next
  case (snoc b cb)
  then have "foldl channelStep [] cb
      = map (\<lambda>s. (s, channel_row cb s)) (first_seen (map source_label cb))"
    and "source_label b \<notin> set Object_prototype_names"
    by simp_all
  then show ?case
    using channelStep_rows [of b cb] by simp
qed

lemma chartData_split:
  "foldl (chartStep env) (md, cd) cb = (foldl (monthStep env) md cb, foldl channelStep cd cb)"
  by (induction cb arbitrary: md cd) (simp_all add: chartStep_def)


lemma month_count_unseen:
  "m \<notin> set (map (arrival_month env) cb) \<Longrightarrow> month_count env cb m = 0"
  by (auto simp add: month_count_def filter_empty_conv)

lemma month_count_pos_iff:
  "0 < month_count env cb m \<longleftrightarrow> m \<in> set (map (arrival_month env) cb)"
  by (auto simp add: month_count_def filter_empty_conv)

lemma monthStep_rows:
  "monthStep env (map (\<lambda>m. (m, month_row env cb m))
                      (first_seen (map (arrival_month env) cb))) b
   = map (\<lambda>m. (m, month_row env (cb @ [b]) m))
         (first_seen (map (arrival_month env) (cb @ [b])))"
proof -
  let ?ks = "first_seen (map (arrival_month env) cb)"
  let ?k = "arrival_month env b"
  let ?init = "\<lparr>monthName = monthNames_at ?k, monthIndex = ?k, bookings = 0\<rparr>"
  let ?upd = "\<lambda>e. e\<lparr>bookings := bookings e + 1\<rparr>"
  have init: "month_row env cb ?k = ?init" if "?k \<notin> set ?ks"
    using that month_count_unseen [of ?k env cb]
    by (simp add: set_first_seen month_row_def)
  have step: "monthStep env (map (\<lambda>m. (m, month_row env cb m)) ?ks) b
      = map (\<lambda>m. (m, if m = ?k then ?upd (month_row env cb ?k) else month_row env cb m))
            (if ?k \<in> set ?ks then ?ks else ?ks @ [?k])"
    using upsert_map [where ks = ?ks and k = ?k and f = "month_row env cb" and init = ?init
                        and upd = ?upd, OF distinct_first_seen init]
    by (simp add: monthStep_def getMonth_arrival Let_def)
  have rows: "(if m = ?k then ?upd (month_row env cb ?k) else month_row env cb m)
      = month_row env (cb @ [b]) m" for m
    by (simp add: month_row_def month_count_def)
  have keys: "(if ?k \<in> set ?ks then ?ks else ?ks @ [?k])
      = first_seen (map (arrival_month env) (cb @ [b]))"
    by (simp add: first_seen_snoc set_first_seen)
  show ?thesis unfolding step rows keys ..
qed

lemma monthlyData_rows:
  "foldl (monthStep env) [] cb
     = map (\<lambda>m. (m, month_row env cb m)) (first_seen (map (arrival_month env) cb))"
proof (induction cb rule: rev_induct)
  case Nil
  then show ?case by simp
next
  case (snoc b cb)
  then show ?case using monthStep_rows [of env cb b] by simp
qed

lemma filter_eq_distinct:
  "distinct xs \<Longrightarrow> filter (\<lambda>k. k = x) xs = (if x \<in> set xs then [x] else [])"
  by (induction xs) (auto simp add: filter_empty_conv)

lemma month_key_index_small: "n < 12 \<Longrightarrow> month_key_index (Some n) = Some n"
  by (simp add: month_key_index_def)

lemma month_key_index_None: "month_key_index None = None"
  by (simp add: month_key_index_def)

lemma month_keys_sorted:
  assumes d: "distinct ks" and small: "\<forall>n. Some n \<in> set ks \<longrightarrow> n < 12"
  shows "sort_key (\<lambda>k. case month_key_index k of Some n \<Rightarrow> n | None \<Rightarrow> 0)
           (filter (\<lambda>k. month_key_index k \<noteq> None) ks)
         = map Some (filter (\<lambda>m. Some m \<in> set ks) [0..<12])"
    (is "sort_key ?g ?xs = ?ys")
proof (rule map_sorted_distinct_set_unique [where f = ?g])
  have xs_set: "set ?xs = {Some n | n. Some n \<in> set ks}"
  proof (intro set_eqI iffI)
    fix x assume "x \<in> set ?xs"
    then have mem: "x \<in> set ks" and idx: "month_key_index x \<noteq> None" by simp_all
    show "x \<in> {Some n | n. Some n \<in> set ks}"
    proof (cases x)
      case None
      with idx show ?thesis by (simp add: month_key_index_None)
    next
      case (Some n)
      with mem show ?thesis by simp
    qed
  next
    fix x assume "x \<in> {Some n | n. Some n \<in> set ks}"
    then obtain n where "x = Some n" and "Some n \<in> set ks" by blast
    with small show "x \<in> set ?xs" by (simp add: month_key_index_small)
  qed
  have ys_set: "set ?ys = {Some n | n. Some n \<in> set ks}"
    using small by auto
  have g_Some: "?g (Some n) = n" if "Some n \<in> set ks" for n
    using that small by (simp add: month_key_index_small)
  show inj: "inj_on ?g (set (sort_key ?g ?xs) \<union> set ?ys)"
    unfolding set_sort xs_set ys_set
    by (rule inj_onI) (auto simp add: g_Some)
  show "sorted (map ?g (sort_key ?g ?xs))" by (rule sorted_sort_key)
  have "inj_on ?g (set ?xs)"
    using inj unfolding set_sort by (rule inj_on_subset) simp
  with d show "distinct (map ?g (sort_key ?g ?xs))"
    by (simp add: distinct_map set_sort)
  have "map ?g ?ys = map (\<lambda>m. m) (filter (\<lambda>m. Some m \<in> set ks) [0..<12])"
    unfolding map_map comp_def by (rule map_cong) (simp_all add: g_Some)
  then have "map ?g ?ys = filter (\<lambda>m. Some m \<in> set ks) [0..<12]"
    by simp
  then show "sorted (map ?g ?ys)" "distinct (map ?g ?ys)"
    by (simp_all add: sorted_filter [where f = "\<lambda>x. x", simplified])
  show "set (sort_key ?g ?xs) = set ?ys"
    unfolding set_sort xs_set ys_set ..
qed


lemma month_rows_in_order:
  "sorted_wrt (\<lambda>a b. \<not> js_gt (sortCompare byMonthIndex a b) (Num 0))
     (map (\<lambda>m. month_row env cb (Some m)) (filter P [0..<12]) @ (if c then [month_row env cb None] else []))"
proof -
  let ?R = "\<lambda>a b. \<not> js_gt (sortCompare byMonthIndex a b) (Num 0)"
  have lt: "?R (month_row env cb (Some m)) (month_row env cb (Some n))" if "m < n" for m n
    using that
    by (simp add: sortCompare_def byMonthIndex_def month_row_def js_sub_def js_gt_def)
  have nan: "?R (month_row env cb (Some m)) (month_row env cb None)" for m
    by (simp add: sortCompare_def byMonthIndex_def month_row_def js_gt_def)
  have "sorted_wrt (<) (filter P [0..<12])"
    by (rule sorted_wrt_filter) simp
  then have "sorted_wrt (\<lambda>m n. ?R (month_row env cb (Some m)) (month_row env cb (Some n)))
               (filter P [0..<12])"
    by (rule sorted_wrt_mono_rel [rotated]) (simp add: lt)
  then have "sorted_wrt ?R (map (\<lambda>m. month_row env cb (Some m)) (filter P [0..<12]))"
    by (simp add: sorted_wrt_map)
  with nan show ?thesis
    by (simp add: sorted_wrt_append)
qed

text \<open>
  The monthly series of a filtered list on a host whose \<open>getMonth\<close> returns 0 to 11:
  one row for every month with a record of status \<open>Booked\<close> arriving in it, in
  ascending order, followed by one row without month when such a record has an
  unparseable arrival.
\<close>

lemma bookingsByMonth_series:
  assumes months: "\<forall>t. localMonth env t < 12"
  shows "r_bookingsByMonth (aggregate env fb) =
     map (\<lambda>m. month_row env (filter (\<lambda>b. status b = ''Booked'') fb) (Some m))
         (filter (\<lambda>m. 0 < month_count env (filter (\<lambda>b. status b = ''Booked'') fb) (Some m))
                 [0..<12])
     @ (if 0 < month_count env (filter (\<lambda>b. status b = ''Booked'') fb) None
        then [month_row env (filter (\<lambda>b. status b = ''Booked'') fb) None] else [])"
proof -
  let ?cb = "filter (\<lambda>b. status b = ''Booked'') fb"
  let ?ks = "first_seen (map (arrival_month env) ?cb)"
  let ?rows = "map (\<lambda>m. month_row env ?cb (Some m))
                 (filter (\<lambda>m. 0 < month_count env ?cb (Some m)) [0..<12])
               @ (if 0 < month_count env ?cb None then [month_row env ?cb None] else [])"
  have small: "\<forall>n. Some n \<in> set ?ks \<longrightarrow> n < 12"
    using months by (auto simp add: set_first_seen arrival_month_def split: option.splits)
  have none: "filter (\<lambda>k. month_key_index k = None) ?ks = filter (\<lambda>k. k = None) ?ks"
  proof (rule filter_cong [OF refl])
    fix k assume "k \<in> set ?ks"
    with small show "(month_key_index k = None) = (k = None)"
      by (cases k) (simp_all add: month_key_index_small month_key_index_None)
  qed
  have seen: "(Some m \<in> set ?ks) = (0 < month_count env ?cb (Some m))" for m
    by (simp add: month_count_pos_iff set_first_seen)
  have seen_none: "(None \<in> set ?ks) = (0 < month_count env ?cb None)"
    by (simp add: month_count_pos_iff set_first_seen)
  have "fst (chartData env ?cb) = map (\<lambda>m. (m, month_row env ?cb m)) ?ks"
    by (simp add: chartData_def chartData_split monthlyData_rows)
  then have "Object_values month_key_index (fst (chartData env ?cb)) = ?rows"
    using month_keys_sorted [OF distinct_first_seen small]
    by (simp add: Object_values_map none filter_eq_distinct distinct_first_seen seen seen_none
          comp_def)
  then have "bookingsByMonth env ?cb = ?rows"
    using js_sort_id [OF month_rows_in_order]
    by (simp add: bookingsByMonth_def)
  then show ?thesis
    by (simp add: aggregate_def Let_def confirmed_is_booked)
qed

text \<open>
  C7. The claim: \<open>bookingsByMonth\<close> holds one entry for every month index 0 to 11
  with at least one confirmed arrival, carrying that month's count, in ascending order,
  and nothing for the other months. The code departs from it on a confirmed booking
  whose arrival is unparseable: the series then has a row without month index and
  without name. For that booking alone the series is this one row; next to the sample
  data and a tentative record the row comes last.
\<close>

theorem bookingsByMonth_unparseable_arrival:
  "r_bookingsByMonth (aggregate sample_env [undated_booking]) =
     [\<lparr>monthName = None, monthIndex = None, bookings = 1\<rparr>]
 \<and> r_bookingsByMonth (aggregate sample_env (undated_booking # MOCK_BOOKINGS @ [tentative_booking])) =
     [\<lparr>monthName = Some ''Jan'', monthIndex = Some 0, bookings = 1\<rparr>,
      \<lparr>monthName = Some ''Feb'', monthIndex = Some 1, bookings = 2\<rparr>,
      \<lparr>monthName = None, monthIndex = None, bookings = 1\<rparr>]"
proof -
  have parse: "Date_parse sample_env = map_of sample_dates"
    and month: "localMonth sample_env = sample_month"
    by (simp_all add: sample_env_def)
  have one: "fst (chartData sample_env (confirmedBookings [undated_booking]))
      = [(None, \<lparr>monthName = None, monthIndex = None, bookings = 1\<rparr>)]"
    by (simp add: undated_booking_def confirmedBookings_def chartData_def chartStep_def
          monthStep_def Let_def getMonth_def parse sample_dates_def monthNames_at_def)
  have all: "fst (chartData sample_env
                    (confirmedBookings (undated_booking # MOCK_BOOKINGS @ [tentative_booking])))
      = [(None, \<lparr>monthName = None, monthIndex = None, bookings = 1\<rparr>),
         (Some 0, \<lparr>monthName = Some ''Jan'', monthIndex = Some 0, bookings = 1\<rparr>),
         (Some 1, \<lparr>monthName = Some ''Feb'', monthIndex = Some 1, bookings = 2\<rparr>)]"
    by (simp add: undated_booking_def MOCK_BOOKINGS_def tentative_booking_def
          confirmedBookings_def chartData_def chartStep_def monthStep_def Let_def getMonth_def
          parse month sample_dates_def sample_month_def monthNames_at_def monthNames_def)
  show ?thesis
    by (simp add: aggregate_def Let_def bookingsByMonth_def one all Object_values_def
          index_of_key_def month_key_index_def sortCompare_def byMonthIndex_def
          js_sub_def js_gt_def)
qed

lemma set_label_order: "set (label_order ks) = set ks"
  by (auto simp add: label_order_def)

lemma distinct_label_order: "distinct ks \<Longrightarrow> distinct (label_order ks)"
  by (auto simp add: label_order_def)

lemma channelName_channel_row: "map channelName (map (channel_row cb) ks) = ks"
  by (simp add: comp_def channel_row_def)

text \<open>
  C6 as stated fails: a label that is an array index is listed before a label seen
  earlier.
\<close>

theorem revenueByChannel_counterexample:
  "map channelOf (confirmedBookings [walk_in_booking, numbered_channel_booking])
     = [''Direct'', ''2'']
 \<and> map channelName
       (revenueByChannel sample_env (confirmedBookings [walk_in_booking, numbered_channel_booking]))
     = [''2'', ''Direct'']"
proof -
  have idx: "array_index ''2'' = Some 2" "array_index ''Direct'' = None"
    by (simp_all add: array_index_def is_digit_def dec_val_def)
  have "snd (chartData sample_env (confirmedBookings [walk_in_booking, numbered_channel_booking]))
      = [(''Direct'', \<lparr>channelName = ''Direct'', revenue = Num 550\<rparr>),
         (''2'', \<lparr>channelName = ''2'', revenue = Num 700\<rparr>)]"
    by (simp add: walk_in_booking_def numbered_channel_booking_def confirmedBookings_def
          channelOf_def chartData_def chartStep_def channelStep_def Let_def
          Object_prototype_names_def amount_def or_zero_def)
  then show ?thesis
    by (simp add: revenueByChannel_def Object_values_def index_of_key_def idx
          walk_in_booking_def numbered_channel_booking_def confirmedBookings_def channelOf_def)
qed

text \<open>
  C6, amended. When no record of status \<open>Booked\<close> has a label that is the name of a
  property of \<open>Object.prototype\<close>, \<open>revenueByChannel\<close> holds exactly one entry for
  every distinct label among the records of status \<open>Booked\<close> (an absent or empty
  source counts as \<open>Unknown\<close>); the entry's revenue is the sum of the amounts of
  those records with that label. Labels that are array indices come first, in ascending
  numeric order; all other labels follow in first-seen order.
\<close>

theorem revenueByChannel_rows:
  "(\<forall>b \<in> set fb. status b = ''Booked'' \<longrightarrow> source_label b \<notin> set Object_prototype_names) \<longrightarrow>
     r_revenueByChannel (aggregate env fb)
       = map (channel_row (filter (\<lambda>b. status b = ''Booked'') fb))
             (label_order (first_seen
                (map source_label (filter (\<lambda>b. status b = ''Booked'') fb))))
   \<and> distinct (map channelName (r_revenueByChannel (aggregate env fb)))
   \<and> set (map channelName (r_revenueByChannel (aggregate env fb)))
       = set (map source_label (filter (\<lambda>b. status b = ''Booked'') fb))"
proof
  assume "\<forall>b \<in> set fb. status b = ''Booked'' \<longrightarrow> source_label b \<notin> set Object_prototype_names"
  let ?cb = "filter (\<lambda>b. status b = ''Booked'') fb"
  let ?ks = "first_seen (map source_label ?cb)"
  from \<open>\<forall>b \<in> set fb. status b = ''Booked'' \<longrightarrow> source_label b \<notin> set Object_prototype_names\<close>
  have own: "\<forall>b \<in> set ?cb. source_label b \<notin> set Object_prototype_names"
    by simp
  have cd: "snd (chartData env ?cb) = map (\<lambda>s. (s, channel_row ?cb s)) ?ks"
    using channelData_rows [OF own] by (simp add: chartData_def chartData_split)
  have idx: "(\<lambda>s. case array_index s of Some n \<Rightarrow> n | None \<Rightarrow> 0) = index_or_zero"
    by (simp add: fun_eq_iff index_or_zero_def)
  have "revenueByChannel env ?cb = map (channel_row ?cb) (label_order ?ks)"
    unfolding revenueByChannel_def cd Object_values_map idx label_order_def by simp
  then have rows: "r_revenueByChannel (aggregate env fb) = map (channel_row ?cb) (label_order ?ks)"
    by (simp add: aggregate_def Let_def confirmed_is_booked)
  have names: "map channelName (r_revenueByChannel (aggregate env fb)) = label_order ?ks"
    unfolding rows by (rule channelName_channel_row)
  have "distinct (label_order ?ks)"
    by (rule distinct_label_order) (rule distinct_first_seen)
  moreover have "set (label_order ?ks) = set (map source_label ?cb)"
    by (simp only: set_label_order set_first_seen)
  ultimately show "r_revenueByChannel (aggregate env fb) = map (channel_row ?cb) (label_order ?ks)
      \<and> distinct (map channelName (r_revenueByChannel (aggregate env fb)))
      \<and> set (map channelName (r_revenueByChannel (aggregate env fb)))
          = set (map source_label ?cb)"
    using rows names by simp
qed

text \<open>
  The mixed list: a cancelled and a tentative record, a repeated label, a numeric label
  seen fourth, and two confirmed records without usable source.
\<close>

theorem revenueByChannel_rows_witness:
  "set (map source_label (filter (\<lambda>b. status b = ''Booked'') mixed_bookings))
     \<inter> set Object_prototype_names = {}
 \<and> first_seen (map source_label (filter (\<lambda>b. status b = ''Booked'') mixed_bookings))
     = [''Airbnb'', ''Booking.com'', ''Direct'', ''2'', ''Unknown'']
 \<and> r_revenueByChannel (aggregate sample_env mixed_bookings) =
     [\<lparr>channelName = ''2'', revenue = Num 700\<rparr>,
      \<lparr>channelName = ''Airbnb'', revenue = Num 500\<rparr>,
      \<lparr>channelName = ''Booking.com'', revenue = Num 650\<rparr>,
      \<lparr>channelName = ''Direct'', revenue = Num 1100\<rparr>,
      \<lparr>channelName = ''Unknown'', revenue = Num 200\<rparr>]"
proof -
  have booked: "filter (\<lambda>b. status b = ''Booked'') mixed_bookings
      = take 3 MOCK_BOOKINGS
        @ [numbered_channel_booking, walk_in_booking, unlabelled_booking, blank_source_booking]"
    by (simp add: mixed_bookings_def MOCK_BOOKINGS_def numbered_channel_booking_def
          walk_in_booking_def unlabelled_booking_def blank_source_booking_def
          tentative_booking_def)
  have labels: "map source_label (filter (\<lambda>b. status b = ''Booked'') mixed_bookings)
      = [''Airbnb'', ''Booking.com'', ''Direct'', ''2'', ''Direct'', ''Unknown'', ''Unknown'']"
    unfolding booked
    by (simp add: MOCK_BOOKINGS_def numbered_channel_booking_def walk_in_booking_def
          unlabelled_booking_def blank_source_booking_def source_label_def)
  have seen: "first_seen (map source_label (filter (\<lambda>b. status b = ''Booked'') mixed_bookings))
      = [''Airbnb'', ''Booking.com'', ''Direct'', ''2'', ''Unknown'']"
    unfolding labels by simp
  have own: "\<forall>b \<in> set mixed_bookings.
      status b = ''Booked'' \<longrightarrow> source_label b \<notin> set Object_prototype_names"
    by (simp add: mixed_bookings_def MOCK_BOOKINGS_def numbered_channel_booking_def
          walk_in_booking_def unlabelled_booking_def blank_source_booking_def
          tentative_booking_def source_label_def Object_prototype_names_def)
  have disjoint: "set (map source_label (filter (\<lambda>b. status b = ''Booked'') mixed_bookings))
      \<inter> set Object_prototype_names = {}"
    unfolding labels by (simp add: Object_prototype_names_def)
  have order: "label_order [''Airbnb'', ''Booking.com'', ''Direct'', ''2'', ''Unknown'']
      = [''2'', ''Airbnb'', ''Booking.com'', ''Direct'', ''Unknown'']"
    by (simp add: label_order_def index_or_zero_def array_index_def is_digit_def dec_val_def)
  have "r_revenueByChannel (aggregate sample_env mixed_bookings) =
     [\<lparr>channelName = ''2'', revenue = Num 700\<rparr>,
      \<lparr>channelName = ''Airbnb'', revenue = Num 500\<rparr>,
      \<lparr>channelName = ''Booking.com'', revenue = Num 650\<rparr>,
      \<lparr>channelName = ''Direct'', revenue = Num 1100\<rparr>,
      \<lparr>channelName = ''Unknown'', revenue = Num 200\<rparr>]"
    using own revenueByChannel_rows [of mixed_bookings sample_env]
    unfolding seen order
    by (simp add: booked MOCK_BOOKINGS_def numbered_channel_booking_def walk_in_booking_def
          unlabelled_booking_def blank_source_booking_def source_label_def
          channel_row_def channel_revenue_def amount_or_zero_def)
  with disjoint seen show ?thesis by simp
qed

end
